theory Spec2Isabelle
  imports Complex_Main
begin

section \<open>Python values\<close>

text \<open>
  A Python \<open>str\<close> is a sequence of Unicode code points, and \<open>len\<close> counts code points.
  A string is therefore a list of code points; \<open>str\<close> writes an ASCII literal.
\<close>

type_synonym pychar = nat
type_synonym pystr = "pychar list"

definition str :: "string \<Rightarrow> pystr" where
  "str s = map of_char s"

text \<open>
  The characters for which \<open>str.isspace\<close> holds. They are what \<open>str.strip()\<close> removes,
  what \<open>str.split()\<close> separates on, and what \<open>\s\<close> matches in a \<open>str\<close> pattern.
\<close>

definition is_space :: "pychar \<Rightarrow> bool" where
  "is_space c \<longleftrightarrow>
     (9 \<le> c \<and> c \<le> 13) \<or> (28 \<le> c \<and> c \<le> 32) \<or> c = 133 \<or> c = 160 \<or> c = 5760 \<or>
     (8192 \<le> c \<and> c \<le> 8202) \<or> c = 8232 \<or> c = 8233 \<or> c = 8239 \<or> c = 8287 \<or> c = 12288"

text \<open>\<open>s.strip()\<close>: leading and trailing whitespace removed.\<close>

definition lstrip :: "pystr \<Rightarrow> pystr" where
  "lstrip s = dropWhile is_space s"

definition rstrip :: "pystr \<Rightarrow> pystr" where
  "rstrip s = rev (dropWhile is_space (rev s))"

definition strip :: "pystr \<Rightarrow> pystr" where
  "strip s = rstrip (lstrip s)"

text \<open>
  \<open>s[start:end]\<close>: a negative index counts from the end, and both indices are clamped
  to \<open>0..len(s)\<close>; the slice is empty when the bounds cross.
\<close>

definition slice_index :: "nat \<Rightarrow> int \<Rightarrow> int" where
  "slice_index n i = (if i < 0 then max 0 (i + int n) else min i (int n))"

definition py_slice :: "'a list \<Rightarrow> int \<Rightarrow> int \<Rightarrow> 'a list" where
  "py_slice s start end =
     (let lo = slice_index (length s) start; hi = slice_index (length s) end
      in take (nat (hi - lo)) (drop (nat lo) s))"

text \<open>
  \<open>s.rfind(c, start, end)\<close> for a one-character \<open>c\<close>: the highest index in
  \<open>s[start:end]\<close> holding \<open>c\<close>, or \<open>-1\<close>. The end is clamped like a slice bound; a negative
  start counts from the end and is clamped at 0.
\<close>

fun last_index :: "'a list \<Rightarrow> 'a \<Rightarrow> nat option" where
  "last_index [] c = None"
| "last_index (x # xs) c =
     (case last_index xs c of
        Some i \<Rightarrow> Some (Suc i)
      | None \<Rightarrow> (if x = c then Some 0 else None))"

definition rfind_start :: "nat \<Rightarrow> int \<Rightarrow> int" where
  "rfind_start n i = (if i < 0 then max 0 (i + int n) else i)"

definition rfind :: "pystr \<Rightarrow> pychar \<Rightarrow> int \<Rightarrow> int \<Rightarrow> int" where
  "rfind s c start end =
     (let lo = rfind_start (length s) start; hi = slice_index (length s) end
      in if hi \<le> lo then - 1
         else (case last_index (take (nat (hi - lo)) (drop (nat lo) s)) c of
                 None \<Rightarrow> - 1
               | Some i \<Rightarrow> lo + int i))"

section \<open>Chunker: \<open>DocumentProcessor.chunk_text\<close>\<close>

definition CHUNK_SIZE :: int where
  "CHUNK_SIZE = 1000"

definition CHUNK_OVERLAP :: int where
  "CHUNK_OVERLAP = 200"

text \<open>
  One pass of the loop body up to the cut: the window end, moved back to just after the
  last full stop of the window, or else to its last space, when that lies past the
  middle of the window and the window does not reach the end of the text.
\<close>

definition chunk_end :: "pystr \<Rightarrow> int \<Rightarrow> int \<Rightarrow> int" where
  "chunk_end text chunk_size start =
     (let end = start + chunk_size
      in if end < int (length text) then
           (let sentence_end = rfind text 46 start end
            in if sentence_end > start + chunk_size div 2 then sentence_end + 1
               else (let word_end = rfind text 32 start end
                     in if word_end > start + chunk_size div 2 then word_end else end))
         else end)"

definition append_chunk :: "pystr list \<Rightarrow> pystr \<Rightarrow> pystr list" where
  "append_chunk chunks chunk = (if chunk \<noteq> [] then chunks @ [chunk] else chunks)"

text \<open>
  The \<open>while\<close> loop. Nothing in the source bounds the number of passes, so the loop is a
  partial function: \<open>None\<close> is a run that never leaves the loop.
\<close>

partial_function (option) chunk_loop ::
  "pystr \<Rightarrow> int \<Rightarrow> int \<Rightarrow> int \<Rightarrow> pystr list \<Rightarrow> pystr list option" where
  "chunk_loop text chunk_size overlap start chunks =
     (if start < int (length text) then
        (if chunk_end text chunk_size start - overlap \<ge> int (length text)
         then Some (append_chunk chunks
                      (strip (py_slice text start (chunk_end text chunk_size start))))
         else chunk_loop text chunk_size overlap
                (chunk_end text chunk_size start - overlap)
                (append_chunk chunks
                   (strip (py_slice text start (chunk_end text chunk_size start)))))
      else Some chunks)"

declare chunk_loop.simps [code]

definition chunk_text :: "pystr \<Rightarrow> int \<Rightarrow> int \<Rightarrow> pystr list option" where
  "chunk_text text chunk_size overlap =
     (if int (length text) \<le> chunk_size then Some [text]
      else chunk_loop text chunk_size overlap 0 [])"

section \<open>Properties of the chunker\<close>

text \<open>
  C6: a text no longer than \<open>chunk_size\<close> comes back as the one-element list holding the
  text itself, unchanged.
\<close>

theorem chunk_text_short:
  "int (length text) \<le> chunk_size \<Longrightarrow> chunk_text text chunk_size overlap = Some [text]"
  by (simp add: chunk_text_def)

theorem chunk_text_short_witness:
  "int (length (str ''Hello world'')) \<le> 1000 \<and>
   chunk_text (str ''Hello world'') 1000 200 = Some [str ''Hello world'']"
  using chunk_text_short [of "str ''Hello world''" 1000 200]
  by (simp add: str_def)

end
